theory Spec2Isabelle
  imports Main "HOL-Library.Word"
begin

section \<open>Values, bytes and rejections\<close>

text \<open>
  A \<open>Uint8Array\<close> or \<open>Buffer\<close> is a list of bytes. Every operation of the two wallets
  returns a promise: \<open>Inr\<close> is the resolved value, \<open>Inl\<close> the value the promise is
  rejected with. The rejection values are the error constants exported by
  \<open>@okxweb3/coin-base\<close> (each wallet imports the ones it uses) and, for an exception that
  no \<open>catch\<close> intercepts, the raw JavaScript \<open>Error\<close> with its message.
  A synchronous helper that throws returns \<open>Inl\<close> as well.
\<close>

type_synonym byte = "8 word"
type_synonym bytes = "byte list"

datatype error =
    NewAddressError
  | SignTxError
  | SignMsgError
  | GenPrivateKeyError
  | GetMpcRawTransactionError
  | GetMpcTransactionError
  | GetHardwareRawTransactionError
  | GetHardwareSignedTransactionError
  | validSignedTransactionError
  | CalcTxHashError
  | JsError string

type_synonym 'a result = "error + 'a"

text \<open>Sequencing of two steps, the second of which runs only when the first did not throw.\<close>

definition and_then :: "'a result \<Rightarrow> ('a \<Rightarrow> 'b result) \<Rightarrow> 'b result" where
  "and_then m f = (case m of Inl e \<Rightarrow> Inl e | Inr x \<Rightarrow> f x)"



text \<open>
  The values a caller can put into an untyped field: \<open>undefined\<close>, a number (the model
  keeps the integers), a string. A numeric field can also hold a \<open>BigNumber\<close> object,
  whose representation \<open>'bn\<close> belongs to the library.
\<close>

datatype jsprim = Undefined | Number int | String string




section \<open>Hex and byte helpers\<close>

text \<open>
  Modelled from the spec: the helpers \<open>hexToBytes\<close>, \<open>bytesToHex\<close>, \<open>unpadBytes\<close>,
  \<open>unpadBuffer\<close>, \<open>concatBytes\<close> (module \<open>sdk/ethereumjs-util\<close>), \<open>base.toHex\<close>
  (\<open>@okxweb3/crypto-lib\<close>) and \<open>assertBufferLength\<close> (\<open>@okxweb3/coin-base\<close>) are not
  among the sources. The spec has them "convert between 0x-prefixed hex text and raw
  bytes" and return "the minimal-length representation of a big-endian integer"; a hex
  body of odd length is read with a zero nibble in front, as a JSON-RPC quantity.
\<close>

definition hexChars :: string where
  "hexChars = ''0123456789abcdef''"

text \<open>One byte as two lower-case hex digits: \<open>`00${x.toString(16)}`.slice(-2)\<close>.\<close>

definition byteToHex :: "byte \<Rightarrow> string" where
  "byteToHex x = [hexChars ! (unat x div 16), hexChars ! (unat x mod 16)]"

definition bytesToHex :: "bytes \<Rightarrow> string" where
  "bytesToHex bs = ''0x'' @ concat (map byteToHex bs)"

definition toHex :: "bytes \<Rightarrow> bool \<Rightarrow> string" where
  "toHex bs addPrefix = (if addPrefix then ''0x'' else []) @ concat (map byteToHex bs)"

definition isHexDigit :: "char \<Rightarrow> bool" where
  "isHexDigit c = (let n = (of_char c :: nat) in
     (48 \<le> n \<and> n \<le> 57) \<or> (97 \<le> n \<and> n \<le> 102) \<or> (65 \<le> n \<and> n \<le> 70))"

definition nibble :: "char \<Rightarrow> nat" where
  "nibble c = (let n = (of_char c :: nat) in
     if 48 \<le> n \<and> n \<le> 57 then n - 48
     else if 97 \<le> n \<and> n \<le> 102 then n - 87
     else n - 55)"

fun unprefixedHexToBytes :: "string \<Rightarrow> bytes" where
  "unprefixedHexToBytes (a # b # rest) =
     of_nat (16 * nibble a + nibble b) # unprefixedHexToBytes rest"
| "unprefixedHexToBytes _ = []"

definition padToEven :: "string \<Rightarrow> string" where
  "padToEven a = (if odd (length a) then CHR ''0'' # a else a)"

definition hexToBytes :: "string \<Rightarrow> bytes result" where
  "hexToBytes hex =
     (if take 2 hex = ''0x'' \<and> list_all isHexDigit (drop 2 hex)
      then Inr (unprefixedHexToBytes (padToEven (drop 2 hex)))
      else Inl (JsError ''Input must be a 0x-prefixed hexadecimal string''))"

text \<open>The loop \<open>while (a.length > 0 && a[0] === 0) a = a.slice(1)\<close>.\<close>

definition unpadBytes :: "bytes \<Rightarrow> bytes" where
  "unpadBytes a = dropWhile (\<lambda>b. b = 0) a"

definition unpadBuffer :: "bytes \<Rightarrow> bytes" where
  "unpadBuffer a = dropWhile (\<lambda>b. b = 0) a"

definition concatBytes :: "bytes \<Rightarrow> bytes \<Rightarrow> bytes" where
  "concatBytes a b = a @ b"

definition assertBufferLength :: "bytes \<Rightarrow> nat \<Rightarrow> unit result" where
  "assertBufferLength buf n =
     (if length buf \<noteq> n then Inl (JsError ''buffer length is illegal'') else Inr ())"

text \<open>The unsigned integer a byte string stands for, most significant byte first.\<close>

definition bytesToInt :: "bytes \<Rightarrow> nat" where
  "bytesToInt bs = foldl (\<lambda>n b. 256 * n + unat b) 0 bs"

section \<open>RLP\<close>

text \<open>
  Modelled from the spec: \<open>RLP.encode\<close> (module \<open>sdk/ethereumjs-util\<close>) is not among the
  sources. By the spec, "single bytes <0x80 encode as themselves; byte strings use
  length-prefixed headers; lists use length-prefixed headers over the concatenation of
  encoded items", with the "0-55 short form, 56+ long form with length-of-length byte".
\<close>

datatype rlp_input = RlpBytes bytes | RlpList "rlp_input list"

text \<open>The minimal big-endian bytes of a length.\<close>

fun be_bytes :: "nat \<Rightarrow> bytes" where
  "be_bytes n = (if n = 0 then [] else be_bytes (n div 256) @ [of_nat (n mod 256)])"

declare be_bytes.simps [simp del]

definition encodeLength :: "nat \<Rightarrow> nat \<Rightarrow> bytes" where
  "encodeLength len offset =
     (if len < 56 then [of_nat (len + offset)]
      else (let hexLength = be_bytes len in
            of_nat (offset + 55 + length hexLength) # hexLength))"

fun RLP_encode :: "rlp_input \<Rightarrow> bytes" where
  "RLP_encode (RlpList xs) =
     (let out = concat (map RLP_encode xs) in encodeLength (length out) 192 @ out)"
| "RLP_encode (RlpBytes b) =
     (if length b = 1 \<and> hd b < 128 then b else encodeLength (length b) 128 @ b)"

section \<open>The data of the Ethereum wallet\<close>

text \<open>\<open>SignTxParams\<close>: the private key, when the caller has one, and the operation's data.\<close>

record 'd SignTxParams =
  privateKey :: "string option"
  data :: 'd

text \<open>
  \<open>AuthorizationListItem\<close>, with the fields \<open>chainId\<close>, \<open>address\<close>, \<open>nonce\<close>,
  \<open>yParity\<close>, \<open>r\<close>, \<open>s\<close> of the source, all hex strings.
\<close>

record AuthorizationListItem =
  auth_chainId :: string
  auth_address :: string
  auth_nonce :: string
  auth_yParity :: string
  auth_r :: string
  auth_s :: string

text \<open>The data of \<open>signAuthorizationListItem\<close>: \<open>{ chainId, nonce, address }\<close>.\<close>

record AuthorizationRequest =
  req_chainId :: string
  req_nonce :: "string option"
  req_address :: string

text \<open>What \<open>ecdsaSign\<close> returns: \<open>{ v, r, s }\<close>.\<close>

record ecdsa_signature =
  sig_v :: int
  sig_r :: bytes
  sig_s :: bytes



text \<open>
  The object \<open>txData\<close> handed to \<open>eth.signTransaction\<close>. Each branch of
  \<open>signTransaction\<close> writes an object literal with its own set of keys; the constructor
  is that set: without the fee-market fields, with them, with them and the
  authorization list.
\<close>

datatype txData =
    LegacyTxData
      (tx_nonce: string) (tx_gasPrice: string) (tx_gasLimit: string)
      (tx_to: "string option") (tx_value: string) (tx_data: "string option")
      (tx_chainId: string) (tx_type: jsprim)
  | FeeMarketTxData
      (tx_nonce: string) (tx_gasLimit: string)
      (tx_to: "string option") (tx_value: string) (tx_data: "string option")
      (tx_chainId: string) (tx_type: jsprim)
      (tx_maxPriorityFeePerGas: string) (tx_maxFeePerGas: string)
  | DelegatedAuthTxData
      (tx_nonce: string) (tx_gasLimit: string)
      (tx_to: "string option") (tx_value: string) (tx_data: "string option")
      (tx_chainId: string) (tx_type: jsprim)
      (tx_maxPriorityFeePerGas: string) (tx_maxFeePerGas: string)
      (tx_authorizationList: "AuthorizationListItem list")


text \<open>
  The functions the Ethereum wallet imports and the sources do not hold. They are
  parameters of the model: \<open>base.fromHex\<close>, \<open>new BigNumber\<close>, \<open>base.toBigIntHex\<close> and
  \<open>abi.RawEncode\<close> of \<open>@okxweb3/crypto-lib\<close>; \<open>keccak256\<close>, \<open>ecdsaSign\<close>,
  \<open>signTransaction\<close>, \<open>getMPCTransaction\<close> and
  \<open>TransactionFactory.fromSerializedData(_).hash()\<close> of the package's \<open>index\<close>.
  \<open>'bn\<close> is the library's \<open>BigNumber\<close>, \<open>'r\<close> what the library's signing returns.
\<close>

record ('bn, 'r) eth_lib =
  fromHex :: "string \<Rightarrow> bytes result"
  newBigNumber :: "jsprim \<Rightarrow> 'bn result"
  toBigIntHex :: "'bn \<Rightarrow> string result"
  RawEncode :: "string list \<Rightarrow> string option list \<Rightarrow> bytes result"
  keccak256 :: "bytes \<Rightarrow> bytes"
  ecdsaSign :: "bytes \<Rightarrow> bytes \<Rightarrow> ecdsa_signature result"
  eth_signTransaction :: "string option \<Rightarrow> txData \<Rightarrow> 'r result"
  eth_getMPCTransaction :: "string \<Rightarrow> string \<Rightarrow> string option \<Rightarrow> 'r result"
  hashOfSerializedData :: "bytes \<Rightarrow> bytes result"

section \<open>EthWallet\<close>





definition signAuthorizationListItem ::
  "('bn, 'r) eth_lib \<Rightarrow> AuthorizationRequest SignTxParams \<Rightarrow> AuthorizationListItem result"
where
  "signAuthorizationListItem L param =
     (case privateKey param of
        None \<Rightarrow> Inl (JsError ''privateKey is invalid'')
      | Some k \<Rightarrow>
        if k = [] then Inl (JsError ''privateKey is invalid'')
        else
        and_then (fromHex L k) (\<lambda>privateKey.
        and_then (and_then (fromHex L k) (\<lambda>b. assertBufferLength b 32)) (\<lambda>_.
        let chainId = req_chainId (data param);
            nonce = req_nonce (data param);
            address = req_address (data param)
        in
        and_then (hexToBytes chainId) (\<lambda>chainIdRaw.
        let chainIdBytes = unpadBytes chainIdRaw in
        and_then (case nonce of
                    Some n \<Rightarrow> and_then (hexToBytes n) (\<lambda>b. Inr (unpadBytes b))
                  | None \<Rightarrow> Inr []) (\<lambda>nonceBytes.
        and_then (hexToBytes address) (\<lambda>addressBytes.
        let rlpdMsg = RLP_encode (RlpList [RlpBytes chainIdBytes, RlpBytes addressBytes,
                                           RlpBytes nonceBytes]);
            msgToSign = keccak256 L (concatBytes [5] rlpdMsg)
        in
        and_then (ecdsaSign L msgToSign privateKey) (\<lambda>signed.
        Inr \<lparr> auth_chainId = bytesToHex chainIdBytes,
              auth_address = address,
              auth_nonce = bytesToHex nonceBytes,
              auth_yParity = (if sig_v signed - 27 = 0 then ''0x'' else ''0x1''),
              auth_r = toHex (unpadBuffer (sig_r signed)) True,
              auth_s = toHex (unpadBuffer (sig_s signed)) True \<rparr>)))))))"

definition toRpcHex :: "string \<Rightarrow> string" where
  "toRpcHex hex =
     (let body = drop 2 hex;
          stripped = dropWhile (\<lambda>c. c = CHR ''0'') body;
          trimmedBody = (if stripped = [] then ''0'' else stripped)
      in ''0x'' @ trimmedBody)"

definition toRpcAuth :: "AuthorizationListItem \<Rightarrow> AuthorizationListItem" where
  "toRpcAuth auth =
     auth \<lparr> auth_chainId := toRpcHex (auth_chainId auth),
            auth_nonce := toRpcHex (auth_nonce auth),
            auth_yParity := toRpcHex (auth_yParity auth),
            auth_r := toRpcHex (auth_r auth),
            auth_s := toRpcHex (auth_s auth) \<rparr>"

definition signAuthorizationListItemForRPC ::
  "('bn, 'r) eth_lib \<Rightarrow> AuthorizationRequest SignTxParams \<Rightarrow> AuthorizationListItem result"
where
  "signAuthorizationListItemForRPC L param =
     and_then (signAuthorizationListItem L param) (\<lambda>auth. Inr (toRpcAuth auth))"



section \<open>The data of the Sui wallet\<close>

record SuiObjectRef =
  objectId :: string
  version :: string
  digest :: string

record PaySuiTransaction =
  inputCoins :: "SuiObjectRef list option"
  recipient :: string
  amount :: string
  gasBudget :: string
  gasPrice :: string
  epoch :: "nat option"

text \<open>\<open>SuiSignData\<close>: a type tag and, as \<open>data\<close>, a string or a \<open>PaySuiTransaction\<close>.\<close>

datatype sui_payload = RawData string | PaySui PaySuiTransaction


record ValidAddressParams =
  va_address :: string

record ValidAddressData =
  vd_isValid :: bool
  vd_address :: string

text \<open>
  The transaction block under construction: what the setters have stored and the
  commands added so far.
\<close>

datatype tb_argument = GasCoin | Pure_bigint int | Pure_string string | Result nat

datatype tb_transaction =
    SplitCoins tb_argument "tb_argument list"
  | TransferObjects "tb_argument list" tb_argument

record TransactionBlock =
  tb_gasPrice :: "int option"
  tb_gasBudget :: "int option"
  tb_expiration :: "nat option"
  tb_gasPayment :: "SuiObjectRef list"
  tb_sender :: "string option"
  tb_transactions :: "tb_transaction list"

text \<open>
  The functions the Sui wallet imports and the sources do not hold, as parameters:
  \<open>base.fromHex\<close> and \<open>base.fromBase64\<close> (applied to whatever \<open>data.data\<close> holds),
  \<open>tryDecodeSuiPrivateKey\<close>, \<open>Ed25519Keypair.fromSeed\<close> (the \<open>RawSigner\<close> wraps the key
  pair), the signer's asynchronous \<open>signTransactionBlock\<close> and \<open>getAddress\<close>, the
  built-in \<open>BigInt\<close>, the block's asynchronous \<open>build\<close> and
  \<open>TransactionBlockDataBuilder.getDigestFromBytes\<close>.
\<close>

record ('kp, 'sg) sui_lib =
  s_fromHex :: "string \<Rightarrow> bytes result"
  s_fromBase64 :: "sui_payload \<Rightarrow> bytes result"
  tryDecodeSuiPrivateKey :: "string option \<Rightarrow> string result"
  Ed25519Keypair_fromSeed :: "bytes \<Rightarrow> 'kp result"
  signTransactionBlock :: "'kp \<Rightarrow> bytes \<Rightarrow> 'sg result"
  getAddress :: "'kp \<Rightarrow> string result"
  BigInt :: "string \<Rightarrow> int result"
  build :: "TransactionBlock \<Rightarrow> bytes result"
  getDigestFromBytes :: "bytes \<Rightarrow> string result"

section \<open>SuiWallet\<close>

text \<open>
  The methods of this class carry the prefix \<open>sui_\<close>, since both wallets have a
  \<open>signTransaction\<close> and a \<open>calcTxHash\<close>.
\<close>


definition sui_validAddress ::
  "('kp, 'sg) sui_lib \<Rightarrow> ValidAddressParams \<Rightarrow> ValidAddressData result"
where
  "sui_validAddress S param =
     (let isValid = (case s_fromHex S (va_address param) of
                       Inr array \<Rightarrow> length array = 32
                     | Inl e \<Rightarrow> False)
      in Inr \<lparr> vd_isValid = isValid, vd_address = va_address param \<rparr>)"

section \<open>Reading a field for JSON-RPC\<close>

text \<open>
  Two hex strings are read alike when both decode, to the same unsigned integer, and to
  the same bytes, but for the empty byte string, which JSON-RPC writes as the one byte 0.
\<close>

definition rpc_equivalent :: "string \<Rightarrow> string \<Rightarrow> bool" where
  "rpc_equivalent h h' =
     (case hexToBytes h of
        Inl e \<Rightarrow> False
      | Inr bs \<Rightarrow>
         (case hexToBytes h' of
            Inl e \<Rightarrow> False
          | Inr bs' \<Rightarrow> bytesToInt bs' = bytesToInt bs \<and> bs' = (if bs = [] then [0] else bs)))"

section \<open>The object handed to the signer\<close>


section \<open>A library to run the model on\<close>

text \<open>
  The theorems below hold for every library. To run the model on concrete calls, here
  is one library: hex and numbers are read as the helpers above read them, the encoder
  pads to 32 bytes, \<open>eth_signTransaction\<close> returns the \<open>txData\<close> it is given, and the
  hash and the signer are small placeholders (a byte sum, a fixed recovery value 27),
  not Keccak-256 or ECDSA.
\<close>

definition leftPad32 :: "bytes \<Rightarrow> bytes" where
  "leftPad32 b = replicate (32 - length b) 0 @ b"

definition sample_fromHex :: "string \<Rightarrow> bytes result" where
  "sample_fromHex s = hexToBytes (if take 2 s = ''0x'' then s else ''0x'' @ s)"

definition sample_lib :: "(int, txData) eth_lib" where
  "sample_lib =
     \<lparr> fromHex = sample_fromHex,
       newBigNumber = (\<lambda>x. case x of
            Number n \<Rightarrow> Inr n
          | String s \<Rightarrow> and_then (hexToBytes s) (\<lambda>b. Inr (int (bytesToInt b)))
          | Undefined \<Rightarrow> Inl (JsError ''not a number'')),
       toBigIntHex = (\<lambda>n. Inr (toRpcHex (bytesToHex (be_bytes (nat n))))),
       RawEncode = (\<lambda>types values. case values of
            [Some a, Some v] \<Rightarrow>
              and_then (hexToBytes a) (\<lambda>ab.
              and_then (hexToBytes v) (\<lambda>vb. Inr (leftPad32 ab @ leftPad32 vb)))
          | _ \<Rightarrow> Inl (JsError ''unsupported arguments'')),
       keccak256 = (\<lambda>m. [foldr (+) m 0]),
       ecdsaSign = (\<lambda>h k. Inr \<lparr> sig_v = 27, sig_r = 0 # h, sig_s = take 2 k \<rparr>),
       eth_signTransaction = (\<lambda>k td. Inr td),
       eth_getMPCTransaction = (\<lambda>raw sigs pk. Inl (JsError ''invalid signature'')),
       hashOfSerializedData = (\<lambda>b. if b = [] then Inl (JsError ''invalid RLP'')
                                     else Inr [foldr (+) b 0]) \<rparr>"

definition sample_key :: string where
  "sample_key = ''0101010101010101010101010101010101010101010101010101010101010101''"

definition sample_request :: "AuthorizationRequest SignTxParams" where
  "sample_request =
     \<lparr> privateKey = Some sample_key,
       data = \<lparr> req_chainId = ''0x01'', req_nonce = Some ''0x00'',
                req_address = ''0x0000000000000000000000000000000000000001'' \<rparr> \<rparr>"

definition sample_item :: AuthorizationListItem where
  "sample_item =
     \<lparr> auth_chainId = ''0x01'',
       auth_address = ''0x0000000000000000000000000000000000000001'',
       auth_nonce = ''0x'', auth_yParity = ''0x'', auth_r = ''0xf2'',
       auth_s = ''0x0101'' \<rparr>"








text \<open>
  A library for the Sui wallet, as simple: a key is the prefix \<open>suiprivkey\<close> and 64 hex
  digits, a signature is two bytes of the key followed by the block.
\<close>

definition sample_sui :: "(bytes, bytes) sui_lib" where
  "sample_sui =
     \<lparr> s_fromHex = sample_fromHex,
       s_fromBase64 = (\<lambda>p. case p of
            RawData s \<Rightarrow> if s = [] then Inl (JsError ''empty input'')
                         else Inr (map (\<lambda>c. of_nat (of_char c)) s)
          | PaySui t \<Rightarrow> Inl (JsError ''not a string'')),
       tryDecodeSuiPrivateKey = (\<lambda>k. case k of
            None \<Rightarrow> Inl (JsError ''invalid private key'')
          | Some s \<Rightarrow> if take 10 s = ''suiprivkey'' then Inr (drop 10 s)
                      else Inl (JsError ''invalid private key prefix'')),
       Ed25519Keypair_fromSeed = (\<lambda>b. if length b = 32 then Inr b
                                        else Inl (JsError ''wrong seed size'')),
       signTransactionBlock = (\<lambda>kp b. Inr (take 2 kp @ b)),
       getAddress = (\<lambda>kp. Inr (bytesToHex kp)),
       BigInt = (\<lambda>s. and_then (hexToBytes s) (\<lambda>b. Inr (int (bytesToInt b)))),
       build = (\<lambda>tx. Inr [of_nat (length (tb_gasPayment tx))]),
       getDigestFromBytes = (\<lambda>b. Inr (bytesToHex b)) \<rparr>"





definition sample_address :: string where
  "sample_address = ''0x0000000000000000000000000000000000000000000000000000000000000002''"

section \<open>Hex text and bytes\<close>

text \<open>Writing bytes as hex and reading them back gives the bytes.\<close>

lemma nibble_hexChars: "k < 16 \<Longrightarrow> nibble (hexChars ! k) = k"
proof -
  assume "k < 16"
  then have "k = 0 \<or> k = 1 \<or> k = 2 \<or> k = 3 \<or> k = 4 \<or> k = 5 \<or> k = 6 \<or> k = 7 \<or> k = 8
      \<or> k = 9 \<or> k = 10 \<or> k = 11 \<or> k = 12 \<or> k = 13 \<or> k = 14 \<or> k = 15" by arith
  then show ?thesis by (auto simp: hexChars_def nibble_def)
qed

lemma isHexDigit_hexChars: "k < 16 \<Longrightarrow> isHexDigit (hexChars ! k)"
proof -
  assume "k < 16"
  then have "k = 0 \<or> k = 1 \<or> k = 2 \<or> k = 3 \<or> k = 4 \<or> k = 5 \<or> k = 6 \<or> k = 7 \<or> k = 8
      \<or> k = 9 \<or> k = 10 \<or> k = 11 \<or> k = 12 \<or> k = 13 \<or> k = 14 \<or> k = 15" by arith
  then show ?thesis by (auto simp: hexChars_def isHexDigit_def)
qed

lemma unat_byte_div16: "unat (x :: byte) div 16 < 16"
proof -
  have "unat x < 256" using unsigned_less [of x, where ?'a = nat] by simp
  then show ?thesis by simp
qed

lemma unprefixed_byteToHex:
  "unprefixedHexToBytes (byteToHex x @ rest) = x # unprefixedHexToBytes rest"
  by (simp add: byteToHex_def nibble_hexChars unat_byte_div16)

lemma unprefixed_concat: "unprefixedHexToBytes (concat (map byteToHex bs)) = bs"
  by (induction bs) (simp_all add: unprefixed_byteToHex)

lemma list_all_byteToHex: "list_all isHexDigit (byteToHex x)"
  by (simp add: byteToHex_def isHexDigit_hexChars unat_byte_div16)

lemma list_all_concat_hex: "list_all isHexDigit (concat (map byteToHex bs))"
  by (induction bs) (simp_all add: list_all_byteToHex)

lemma length_concat_hex: "length (concat (map byteToHex bs)) = 2 * length bs"
  by (induction bs) (simp_all add: byteToHex_def)

lemma hexToBytes_bytesToHex: "hexToBytes (bytesToHex bs) = Inr bs"
  by (simp add: hexToBytes_def bytesToHex_def list_all_concat_hex padToEven_def
      length_concat_hex unprefixed_concat)

lemma hexToBytes_toHex: "hexToBytes (toHex bs True) = Inr bs"
  by (simp add: hexToBytes_def toHex_def list_all_concat_hex padToEven_def
      length_concat_hex unprefixed_concat)



lemma unpadBytes_hd: "unpadBytes a = [] \<or> hd (unpadBytes a) \<noteq> 0"
  unfolding unpadBytes_def using hd_dropWhile [of "\<lambda>b. b = 0" a] by blast

lemma unpadBytes_idem: "a = [] \<or> hd a \<noteq> 0 \<Longrightarrow> unpadBytes a = a"
  unfolding unpadBytes_def by (cases a) auto

lemma bytesToInt_unpad: "bytesToInt (unpadBytes a) = bytesToInt a"
  unfolding unpadBytes_def bytesToInt_def by (induction a) simp_all

text \<open>
  A zero digit in front of a hex body adds at most a zero byte in front of what is read;
  a body that starts with another digit is read as bytes that start with a non-zero byte.
\<close>

lemma nibble_zero: "nibble CHR ''0'' = 0"
  by (simp add: nibble_def)

lemma read_zero_digit:
  "unpadBytes (unprefixedHexToBytes (padToEven (CHR ''0'' # s)))
     = unpadBytes (unprefixedHexToBytes (padToEven s))"
proof (cases "odd (length s)")
  case True
  then show ?thesis by (simp add: padToEven_def)
next
  case False
  then show ?thesis by (simp add: padToEven_def unpadBytes_def nibble_zero)
qed

lemma read_dropWhile_zero:
  "unpadBytes (unprefixedHexToBytes (padToEven (dropWhile (\<lambda>c. c = CHR ''0'') s)))
     = unpadBytes (unprefixedHexToBytes (padToEven s))"
  by (induction s) (simp_all add: read_zero_digit)

lemma of_char_48: "(of_char c :: nat) = 48 \<Longrightarrow> c = CHR ''0''"
proof -
  assume "(of_char c :: nat) = 48"
  then have "(of_char c :: nat) = of_char CHR ''0''" by simp
  then show ?thesis by (simp only: of_char_eq_iff)
qed

lemma nibble_lt16: "isHexDigit c \<Longrightarrow> nibble c < 16"
  by (auto simp: isHexDigit_def nibble_def Let_def)

lemma nibble_pos:
  assumes "isHexDigit c" "c \<noteq> CHR ''0''"
  shows "0 < nibble c"
proof -
  have "(of_char c :: nat) \<noteq> 48" using of_char_48 [of c] assms(2) by blast
  with assms(1) show ?thesis by (auto simp: isHexDigit_def nibble_def Let_def)
qed

lemma unat_byte_of_nat: "n < 256 \<Longrightarrow> unat (of_nat n :: byte) = n"
  by (simp add: unat_of_nat)

lemma byte_of_nibbles_nonzero:
  assumes "a < 16" "b < 16" "0 < a \<or> 0 < b"
  shows "(of_nat (16 * a + b) :: byte) \<noteq> 0"
proof -
  have "16 * a + b < 256" using assms by simp
  then have "unat (of_nat (16 * a + b) :: byte) = 16 * a + b"
    by (rule unat_byte_of_nat)
  moreover have "16 * a + b \<noteq> 0" using assms by auto
  ultimately show ?thesis by (metis unat_0)
qed

lemma read_nonzero_head:
  assumes "list_all isHexDigit (c # s)" "c \<noteq> CHR ''0''"
  shows "\<exists>x xs. unprefixedHexToBytes (padToEven (c # s)) = x # xs \<and> x \<noteq> 0"
proof (cases "odd (length (c # s))")
  case True
  have "(of_nat (16 * nibble CHR ''0'' + nibble c) :: byte) \<noteq> 0"
    using assms nibble_pos [of c] nibble_lt16 [of c]
    by (intro byte_of_nibbles_nonzero) (simp_all add: nibble_zero)
  with True show ?thesis by (simp add: padToEven_def)
next
  case False
  then obtain d s' where s: "s = d # s'" by (cases s) auto
  have "(of_nat (16 * nibble c + nibble d) :: byte) \<noteq> 0"
    using assms nibble_pos [of c] nibble_lt16 [of c] nibble_lt16 [of d] s
    by (intro byte_of_nibbles_nonzero) simp_all
  with False s show ?thesis by (simp add: padToEven_def)
qed

text \<open>What \<open>toRpcHex\<close> does to the bytes a hex string decodes to.\<close>

lemma hexToBytes_toRpcHex:
  assumes "hexToBytes hex = Inr bs"
  shows "hexToBytes (toRpcHex hex)
           = Inr (if unpadBytes bs = [] then [0] else unpadBytes bs)"
proof -
  let ?body = "drop 2 hex"
  let ?t = "dropWhile (\<lambda>c. c = CHR ''0'') ?body"
  from assms have ok: "list_all isHexDigit ?body"
    and bs: "bs = unprefixedHexToBytes (padToEven ?body)"
    by (auto simp: hexToBytes_def split: if_splits)
  have eq: "unpadBytes (unprefixedHexToBytes (padToEven ?t)) = unpadBytes bs"
    unfolding bs by (rule read_dropWhile_zero)
  show ?thesis
  proof (cases "?t = []")
    case True
    with eq have "unpadBytes bs = []" by (simp add: padToEven_def unpadBytes_def)
    moreover have "toRpcHex hex = ''0x0''"
      using True unfolding toRpcHex_def Let_def by (simp del: dropWhile_eq_Nil_conv)
    moreover have "hexToBytes ''0x0'' = Inr [0]"
      by (simp add: hexToBytes_def padToEven_def isHexDigit_def nibble_def)
    ultimately show ?thesis by simp
  next
    case False
    then obtain c s where t: "?t = c # s" by (cases ?t) auto
    have c0: "c \<noteq> CHR ''0''" using hd_dropWhile [of "\<lambda>c. c = CHR ''0''" ?body] t by auto
    have okt: "list_all isHexDigit ?t"
      using ok by (metis list_all_append takeWhile_dropWhile_id)
    from read_nonzero_head [of c s] okt c0 t
    obtain x xs where r: "unprefixedHexToBytes (padToEven ?t) = x # xs" and "x \<noteq> 0"
      by auto
    then have "unpadBytes (unprefixedHexToBytes (padToEven ?t)) = x # xs"
      by (simp add: unpadBytes_def)
    with eq have u: "unpadBytes bs = x # xs" by simp
    have rpc: "toRpcHex hex = ''0x'' @ ?t"
      using False unfolding toRpcHex_def Let_def by (simp del: dropWhile_eq_Nil_conv)
    have "hexToBytes (''0x'' @ ?t) = Inr (unprefixedHexToBytes (padToEven ?t))"
      using okt by (simp add: hexToBytes_def)
    with r u rpc show ?thesis by simp
  qed
qed

section \<open>Signing an authorization item\<close>

text \<open>What a successful call of \<open>signAuthorizationListItem\<close> has computed on the way.\<close>

lemma signAuthorizationListItem_InrD:
  assumes "signAuthorizationListItem L param = Inr auth"
  obtains k key cb nonceBytes ab signed where
    "privateKey param = Some k" and "k \<noteq> []"
    and "fromHex L k = Inr key" and "length key = 32"
    and "hexToBytes (req_chainId (data param)) = Inr cb"
    and "case req_nonce (data param) of
           None \<Rightarrow> nonceBytes = []
         | Some n \<Rightarrow> \<exists>nb. hexToBytes n = Inr nb \<and> nonceBytes = unpadBytes nb"
    and "hexToBytes (req_address (data param)) = Inr ab"
    and "ecdsaSign L (keccak256 L ([5] @ RLP_encode
           (RlpList [RlpBytes (unpadBytes cb), RlpBytes ab, RlpBytes nonceBytes]))) key
         = Inr signed"
    and "auth = \<lparr> auth_chainId = bytesToHex (unpadBytes cb),
                   auth_address = req_address (data param),
                   auth_nonce = bytesToHex nonceBytes,
                   auth_yParity = (if sig_v signed - 27 = 0 then ''0x'' else ''0x1''),
                   auth_r = toHex (unpadBuffer (sig_r signed)) True,
                   auth_s = toHex (unpadBuffer (sig_s signed)) True \<rparr>"
  using assms
  unfolding signAuthorizationListItem_def and_then_def assertBufferLength_def Let_def
    concatBytes_def
  by (auto split: option.splits sum.splits if_splits)




text \<open>A run: chain 1, nonce 0, the address that ends in 01.\<close>

lemma sample_sign: "signAuthorizationListItem sample_lib sample_request = Inr sample_item"
  by (simp add: signAuthorizationListItem_def sample_lib_def sample_request_def sample_item_def
      sample_key_def sample_fromHex_def and_then_def assertBufferLength_def hexToBytes_def
      padToEven_def isHexDigit_def nibble_def unpadBytes_def unpadBuffer_def concatBytes_def
      encodeLength_def bytesToHex_def toHex_def byteToHex_def hexChars_def)



section \<open>The y-parity of an authorization item\<close>

text \<open>
  C9. For every item \<open>signAuthorizationListItem\<close> returns, the \<open>yParity\<close> field is \<open>0x\<close>
  when the recovery parity \<open>v - 27\<close> of the signature over the tagged RLP message is 0
  and \<open>0x1\<close> when it is 1; it is never \<open>0x0\<close>.
\<close>

theorem signAuthorizationListItem_yParity:
  assumes "signAuthorizationListItem L param = Inr auth"
  shows "auth_yParity auth \<noteq> ''0x0''
    \<and> (\<exists>k key cb ab ns signed.
        privateKey param = Some k \<and> fromHex L k = Inr key
      \<and> hexToBytes (req_chainId (data param)) = Inr cb
      \<and> (case req_nonce (data param) of
            None \<Rightarrow> ns = []
          | Some n \<Rightarrow> \<exists>nb. hexToBytes n = Inr nb \<and> ns = unpadBytes nb)
      \<and> hexToBytes (req_address (data param)) = Inr ab
      \<and> ecdsaSign L (keccak256 L ([0x05] @ RLP_encode
           (RlpList [RlpBytes (unpadBytes cb), RlpBytes ab, RlpBytes ns]))) key = Inr signed
      \<and> (sig_v signed - 27 = 0 \<longrightarrow> auth_yParity auth = ''0x'')
      \<and> (sig_v signed - 27 = 1 \<longrightarrow> auth_yParity auth = ''0x1''))"
proof -
  from assms obtain k key cb nonceBytes ab signed where
    k: "privateKey param = Some k" "fromHex L k = Inr key"
    and cb: "hexToBytes (req_chainId (data param)) = Inr cb"
    and nb: "case req_nonce (data param) of
           None \<Rightarrow> nonceBytes = []
         | Some n \<Rightarrow> \<exists>nb. hexToBytes n = Inr nb \<and> nonceBytes = unpadBytes nb"
    and ab: "hexToBytes (req_address (data param)) = Inr ab"
    and sg: "ecdsaSign L (keccak256 L ([5] @ RLP_encode
           (RlpList [RlpBytes (unpadBytes cb), RlpBytes ab, RlpBytes nonceBytes]))) key
         = Inr signed"
    and auth: "auth = \<lparr> auth_chainId = bytesToHex (unpadBytes cb),
                   auth_address = req_address (data param),
                   auth_nonce = bytesToHex nonceBytes,
                   auth_yParity = (if sig_v signed - 27 = 0 then ''0x'' else ''0x1''),
                   auth_r = toHex (unpadBuffer (sig_r signed)) True,
                   auth_s = toHex (unpadBuffer (sig_s signed)) True \<rparr>"
    by (rule signAuthorizationListItem_InrD)
  from auth have y: "auth_yParity auth = (if sig_v signed - 27 = 0 then ''0x'' else ''0x1'')"
    by simp
  then have "auth_yParity auth \<noteq> ''0x0''" by simp
  moreover from k cb nb ab sg y
  have "\<exists>k key cb ab ns signed.
        privateKey param = Some k \<and> fromHex L k = Inr key
      \<and> hexToBytes (req_chainId (data param)) = Inr cb
      \<and> (case req_nonce (data param) of
            None \<Rightarrow> ns = []
          | Some n \<Rightarrow> \<exists>nb. hexToBytes n = Inr nb \<and> ns = unpadBytes nb)
      \<and> hexToBytes (req_address (data param)) = Inr ab
      \<and> ecdsaSign L (keccak256 L ([0x05] @ RLP_encode
           (RlpList [RlpBytes (unpadBytes cb), RlpBytes ab, RlpBytes ns]))) key = Inr signed
      \<and> (sig_v signed - 27 = 0 \<longrightarrow> auth_yParity auth = ''0x'')
      \<and> (sig_v signed - 27 = 1 \<longrightarrow> auth_yParity auth = ''0x1'')"
    by (intro exI [of _ k] exI [of _ key] exI [of _ cb] exI [of _ ab]
        exI [of _ nonceBytes] exI [of _ signed]) simp
  ultimately show ?thesis by (rule conjI)
qed

theorem signAuthorizationListItem_yParity_witness:
  "signAuthorizationListItem sample_lib sample_request = Inr sample_item
   \<and> auth_yParity sample_item = ''0x''
   \<and> auth_yParity sample_item \<noteq> ''0x0''"
  using sample_sign signAuthorizationListItem_yParity [OF sample_sign]
  by (simp add: sample_item_def)

section \<open>The JSON-RPC form of an authorization item\<close>

text \<open>
  A field written from stripped bytes, and the two y-parity strings, decode to bytes
  without leading zero bytes; \<open>toRpcHex\<close> then changes the decoded bytes only when they
  are empty.
\<close>

lemma unpadBytes_unpadBytes: "unpadBytes (unpadBytes a) = unpadBytes a"
  using unpadBytes_hd [of a] by (rule unpadBytes_idem)

lemma unpadBuffer_eq: "unpadBuffer a = unpadBytes a"
  by (simp add: unpadBuffer_def unpadBytes_def)

lemma rpc_equivalent_canonical:
  assumes "hexToBytes h = Inr bs" and "unpadBytes bs = bs"
  shows "rpc_equivalent h (toRpcHex h)"
proof -
  have "hexToBytes (toRpcHex h) = Inr (if bs = [] then [0] else bs)"
    using hexToBytes_toRpcHex [OF assms(1)] assms(2) by simp
  moreover have "bytesToInt (if bs = [] then [0] else bs) = bytesToInt bs"
    by (simp add: bytesToInt_def)
  ultimately show ?thesis using assms(1) by (simp add: rpc_equivalent_def)
qed

lemma rpc_equivalent_bytesToHex: "rpc_equivalent (bytesToHex (unpadBytes a)) (toRpcHex (bytesToHex (unpadBytes a)))"
  by (rule rpc_equivalent_canonical [OF hexToBytes_bytesToHex unpadBytes_unpadBytes])

lemma rpc_equivalent_toHex:
  "rpc_equivalent (toHex (unpadBuffer a) True) (toRpcHex (toHex (unpadBuffer a) True))"
  unfolding unpadBuffer_eq
  by (rule rpc_equivalent_canonical [OF hexToBytes_toHex unpadBytes_unpadBytes])

lemma rpc_equivalent_yParity:
  "rpc_equivalent (if b then ''0x'' else ''0x1'') (toRpcHex (if b then ''0x'' else ''0x1''))"
proof -
  have "hexToBytes ''0x'' = Inr []" "hexToBytes ''0x1'' = Inr [1]"
    by (simp_all add: hexToBytes_def padToEven_def isHexDigit_def nibble_def)
  then show ?thesis
    by (cases b) (auto intro!: rpc_equivalent_canonical simp: unpadBytes_def)
qed

text \<open>
  C7, as amended. For every item \<open>signAuthorizationListItem\<close> returns,
  \<open>signAuthorizationListItemForRPC\<close> returns its \<open>toRpcAuth\<close> form, with the same address,
  and each of \<open>chainId\<close>, \<open>nonce\<close>, \<open>yParity\<close>, \<open>r\<close>, \<open>s\<close> decodes to the same unsigned
  integer as before and to the same bytes, except that a field that was \<open>0x\<close> (the empty
  byte string) is now \<open>0x0\<close> and decodes to the single byte 0.
\<close>

theorem signAuthorizationListItemForRPC_keeps_quantities:
  assumes "signAuthorizationListItem L param = Inr auth"
  shows "signAuthorizationListItemForRPC L param = Inr (toRpcAuth auth)
    \<and> auth_address (toRpcAuth auth) = auth_address auth
    \<and> rpc_equivalent (auth_chainId auth) (auth_chainId (toRpcAuth auth))
    \<and> rpc_equivalent (auth_nonce auth) (auth_nonce (toRpcAuth auth))
    \<and> rpc_equivalent (auth_yParity auth) (auth_yParity (toRpcAuth auth))
    \<and> rpc_equivalent (auth_r auth) (auth_r (toRpcAuth auth))
    \<and> rpc_equivalent (auth_s auth) (auth_s (toRpcAuth auth))"
proof -
  from assms obtain k key cb nonceBytes ab signed where
    "privateKey param = Some k" "k \<noteq> []" "fromHex L k = Inr key" "length key = 32"
    "hexToBytes (req_chainId (data param)) = Inr cb"
    and nb: "case req_nonce (data param) of
           None \<Rightarrow> nonceBytes = []
         | Some n \<Rightarrow> \<exists>nb. hexToBytes n = Inr nb \<and> nonceBytes = unpadBytes nb"
    and "hexToBytes (req_address (data param)) = Inr ab"
    and "ecdsaSign L (keccak256 L ([5] @ RLP_encode
           (RlpList [RlpBytes (unpadBytes cb), RlpBytes ab, RlpBytes nonceBytes]))) key
         = Inr signed"
    and auth: "auth = \<lparr> auth_chainId = bytesToHex (unpadBytes cb),
                   auth_address = req_address (data param),
                   auth_nonce = bytesToHex nonceBytes,
                   auth_yParity = (if sig_v signed - 27 = 0 then ''0x'' else ''0x1''),
                   auth_r = toHex (unpadBuffer (sig_r signed)) True,
                   auth_s = toHex (unpadBuffer (sig_s signed)) True \<rparr>"
    by (rule signAuthorizationListItem_InrD)
  from nb have "nonceBytes = unpadBytes nonceBytes"
    by (auto simp: unpadBytes_unpadBytes unpadBytes_def split: option.splits)
  then have n: "rpc_equivalent (bytesToHex nonceBytes) (toRpcHex (bytesToHex nonceBytes))"
    using rpc_equivalent_bytesToHex [of nonceBytes] by simp
  have "signAuthorizationListItemForRPC L param = Inr (toRpcAuth auth)"
    using assms by (simp add: signAuthorizationListItemForRPC_def and_then_def)
  then show ?thesis
    using n rpc_equivalent_bytesToHex [of cb] rpc_equivalent_toHex
      rpc_equivalent_yParity [of "sig_v signed - 27 = 0"]
    by (simp add: auth toRpcAuth_def)
qed

theorem signAuthorizationListItemForRPC_keeps_quantities_witness:
  "signAuthorizationListItem sample_lib sample_request = Inr sample_item
   \<and> signAuthorizationListItemForRPC sample_lib sample_request = Inr (toRpcAuth sample_item)
   \<and> rpc_equivalent (auth_s sample_item) (auth_s (toRpcAuth sample_item))"
  using sample_sign signAuthorizationListItemForRPC_keeps_quantities [OF sample_sign]
  by simp

text \<open>
  The decoded bytes themselves are not always kept: in the run above the nonce and the
  y-parity are \<open>0x\<close>, the empty byte string, and their JSON-RPC form \<open>0x0\<close> decodes to
  one zero byte.
\<close>

theorem toRpcAuth_changes_decoded_bytes:
  "signAuthorizationListItem sample_lib sample_request = Inr sample_item
   \<and> hexToBytes (auth_yParity sample_item) = Inr []
   \<and> hexToBytes (auth_yParity (toRpcAuth sample_item)) = Inr [0]
   \<and> hexToBytes (auth_nonce sample_item) = Inr []
   \<and> hexToBytes (auth_nonce (toRpcAuth sample_item)) = Inr [0]"
  using sample_sign
  by (simp add: sample_item_def toRpcAuth_def toRpcHex_def hexToBytes_def padToEven_def
      isHexDigit_def nibble_def)

section \<open>Building and signing a transaction\<close>






















section \<open>What an operation is rejected with\<close>







section \<open>The Sui wallet\<close>





text \<open>
  C10. \<open>validAddress\<close> of the Sui wallet never rejects: it resolves with the address it
  was given and with \<open>isValid\<close> true exactly when \<open>base.fromHex\<close> returns, without
  throwing, an array of 32 bytes.
\<close>

theorem sui_validAddress_never_rejects:
  "sui_validAddress S param =
     Inr \<lparr> vd_isValid = (\<exists>array. s_fromHex S (va_address param) = Inr array
                                   \<and> length array = 32),
           vd_address = va_address param \<rparr>"
  by (cases "s_fromHex S (va_address param)") (simp_all add: sui_validAddress_def)

theorem sui_validAddress_never_rejects_witness:
  "sui_validAddress sample_sui \<lparr> va_address = sample_address \<rparr>
     = Inr \<lparr> vd_isValid = True, vd_address = sample_address \<rparr>
   \<and> sui_validAddress sample_sui \<lparr> va_address = ''0x02'' \<rparr>
     = Inr \<lparr> vd_isValid = False, vd_address = ''0x02'' \<rparr>
   \<and> sui_validAddress sample_sui \<lparr> va_address = ''zz'' \<rparr>
     = Inr \<lparr> vd_isValid = False, vd_address = ''zz'' \<rparr>"
proof -
  have 1: "\<exists>array. s_fromHex sample_sui sample_address = Inr array \<and> length array = 32"
    by (simp add: sample_sui_def sample_address_def sample_fromHex_def hexToBytes_def
        padToEven_def isHexDigit_def nibble_def)
  have 2: "\<not> (\<exists>array. s_fromHex sample_sui ''0x02'' = Inr array \<and> length array = 32)"
    by (simp add: sample_sui_def sample_fromHex_def hexToBytes_def
        padToEven_def isHexDigit_def nibble_def)
  have 3: "\<not> (\<exists>array. s_fromHex sample_sui ''zz'' = Inr array \<and> length array = 32)"
    by (simp add: sample_sui_def sample_fromHex_def hexToBytes_def isHexDigit_def)
  show ?thesis
    using sui_validAddress_never_rejects [of sample_sui "\<lparr> va_address = sample_address \<rparr>"]
      sui_validAddress_never_rejects [of sample_sui "\<lparr> va_address = ''0x02'' \<rparr>"]
      sui_validAddress_never_rejects [of sample_sui "\<lparr> va_address = ''zz'' \<rparr>"]
      1 2 3
    by simp
qed

end
